theory Spec2Isabelle
  imports Complex_Main "HOL-Library.Log_Nat"
begin

section \<open>JavaScript numbers\<close>

text \<open>
  A JavaScript number is an IEEE-754 binary64 value. A finite value is kept as the rational
  it denotes (\<open>Fin q\<close>, with \<open>NegZero\<close> for \<open>-0\<close>); \<open>Inf True\<close> is \<open>-Infinity\<close>.
  Every arithmetic result is rounded to the nearest binary64 value, ties to even, by
  \<open>round_mag\<close>, which returns \<open>None\<close> on overflow.
\<close>

datatype jsnum = NaN | Inf bool | NegZero | Fin rat

text \<open>\<open>ilog2 a\<close> is the binary exponent of \<open>a > 0\<close>: \<open>2 ^ e \<le> a < 2 ^ (e + 1)\<close>.\<close>

definition ilog2 :: "rat \<Rightarrow> int" where
  "ilog2 a = (if 1 \<le> a then bitlen \<lfloor>a\<rfloor> - 1 else - bitlen (\<lceil>1 / a\<rceil> - 1))"

definition round_ties_even :: "rat \<Rightarrow> int" where
  "round_ties_even a =
     (let f = \<lfloor>a\<rfloor>; d = a - of_int f
      in if d < 1 / 2 then f else if 1 / 2 < d then f + 1 else if even f then f else f + 1)"

text \<open>
  Rounding of a magnitude \<open>a \<ge> 0\<close>: the unit in the last place is \<open>2 ^ (e - 52)\<close> for
  the exponent \<open>e\<close> of \<open>a\<close>, and never below \<open>2 ^ (- 1074)\<close> (subnormal values).
\<close>

definition round_mag :: "rat \<Rightarrow> rat option" where
  "round_mag a =
     (if a = 0 then Some 0
      else let e = max (ilog2 a) (- 1022);
               u = 2 powi (e - 52);
               v = of_int (round_ties_even (a / u)) * u
           in if 2 powi 1024 \<le> v then None else Some v)"

definition mk_num :: "bool \<Rightarrow> rat \<Rightarrow> jsnum" where
  "mk_num neg a =
     (case round_mag a of
        None \<Rightarrow> Inf neg
      | Some v \<Rightarrow> if v = 0 then (if neg then NegZero else Fin 0) else Fin (if neg then - v else v))"


fun is_neg :: "jsnum \<Rightarrow> bool" where
  "is_neg NaN = False"
| "is_neg (Inf b) = b"
| "is_neg NegZero = True"
| "is_neg (Fin q) = (q < 0)"

fun mag :: "jsnum \<Rightarrow> rat" where
  "mag (Fin q) = \<bar>q\<bar>"
| "mag _ = 0"

fun val :: "jsnum \<Rightarrow> rat" where
  "val (Fin q) = q"
| "val _ = 0"

fun is_inf :: "jsnum \<Rightarrow> bool" where
  "is_inf (Inf _) = True"
| "is_inf _ = False"

fun is_zero :: "jsnum \<Rightarrow> bool" where
  "is_zero NegZero = True"
| "is_zero (Fin q) = (q = 0)"
| "is_zero _ = False"

definition isNaN :: "jsnum \<Rightarrow> bool" where
  "isNaN x = (x = NaN)"

text \<open>ToBoolean of a number: \<open>+0\<close>, \<open>-0\<close> and \<open>NaN\<close> are falsy.\<close>

definition truthy :: "jsnum \<Rightarrow> bool" where
  "truthy x = (\<not> is_zero x \<and> x \<noteq> NaN)"

definition jsneg :: "jsnum \<Rightarrow> jsnum" where
  "jsneg x = (case x of NaN \<Rightarrow> NaN | Inf b \<Rightarrow> Inf (\<not> b) | NegZero \<Rightarrow> Fin 0
              | Fin q \<Rightarrow> if q = 0 then NegZero else Fin (- q))"

definition jsmul :: "jsnum \<Rightarrow> jsnum \<Rightarrow> jsnum" where
  "jsmul x y =
     (if x = NaN \<or> y = NaN then NaN
      else if is_inf x \<or> is_inf y
        then (if is_zero x \<or> is_zero y then NaN else Inf (is_neg x \<noteq> is_neg y))
      else mk_num (is_neg x \<noteq> is_neg y) (mag x * mag y))"

definition jsdiv :: "jsnum \<Rightarrow> jsnum \<Rightarrow> jsnum" where
  "jsdiv x y =
     (if x = NaN \<or> y = NaN then NaN
      else if is_inf x then (if is_inf y then NaN else Inf (is_neg x \<noteq> is_neg y))
      else if is_inf y then mk_num (is_neg x \<noteq> is_neg y) 0
      else if is_zero y then (if is_zero x then NaN else Inf (is_neg x \<noteq> is_neg y))
      else mk_num (is_neg x \<noteq> is_neg y) (mag x / mag y))"

definition jsadd :: "jsnum \<Rightarrow> jsnum \<Rightarrow> jsnum" where
  "jsadd x y =
     (if x = NaN \<or> y = NaN then NaN
      else if is_inf x then (if is_inf y \<and> is_neg x \<noteq> is_neg y then NaN else x)
      else if is_inf y then y
      else let r = val x + val y
           in if r = 0 then (if x = NegZero \<and> y = NegZero then NegZero else Fin 0)
              else mk_num (r < 0) \<bar>r\<bar>)"

definition jssub :: "jsnum \<Rightarrow> jsnum \<Rightarrow> jsnum" where
  "jssub x y = jsadd x (jsneg y)"

text \<open>A decimal literal of the source, such as \<open>0.2\<close>, denotes the nearest binary64 value.\<close>

definition num_lit :: "rat \<Rightarrow> jsnum" where
  "num_lit q = mk_num False q"

text \<open>ToNumber of \<open>number | undefined\<close>: a missing property reads as \<open>undefined\<close>.\<close>

definition to_number :: "jsnum option \<Rightarrow> jsnum" where
  "to_number v = (case v of None \<Rightarrow> NaN | Some x \<Rightarrow> x)"

text \<open>
  \<open>new Date(v)\<close> keeps the time value \<open>TimeClip v\<close>: \<open>NaN\<close> (an invalid date) out of
  range, the value truncated to an integer otherwise.
\<close>

definition TimeClip :: "jsnum \<Rightarrow> jsnum" where
  "TimeClip t =
     (case t of
        NaN \<Rightarrow> NaN
      | Inf _ \<Rightarrow> NaN
      | NegZero \<Rightarrow> Fin 0
      | Fin q \<Rightarrow> if 8640000000000000 < \<bar>q\<bar> then NaN
                 else Fin (of_int (if 0 \<le> q then \<lfloor>q\<rfloor> else \<lceil>q\<rceil>)))"

section \<open>Strings and numbers\<close>

text \<open>
  A string is the list of the bytes of its UTF-8 encoding. \<open>jsNumber\<close> is \<open>Number(s)\<close>
  on a string (StringToNumber): white space is trimmed, the empty string is \<open>+0\<close>, a
  decimal literal (with sign, fraction and exponent), \<open>Infinity\<close>, or a hexadecimal,
  octal or binary integer literal gives its value rounded to binary64, and anything else
  gives \<open>NaN\<close>. (For a literal of more than 20 significant digits ECMAScript allows
  an engine to round the digits first; the value is rounded exactly here.)
\<close>

fun pos_of :: "'a \<Rightarrow> 'a list \<Rightarrow> nat" where
  "pos_of c [] = 0"
| "pos_of c (x # xs) = (if c = x then 0 else Suc (pos_of c xs))"

definition is_digit :: "char \<Rightarrow> bool" where
  "is_digit c = (c \<in> set ''0123456789'')"

definition digit_val :: "char \<Rightarrow> nat" where
  "digit_val c =
     (if c \<in> set ''0123456789abcdef'' then pos_of c ''0123456789abcdef''
      else if c \<in> set ''ABCDEF'' then 10 + pos_of c ''ABCDEF''
      else 16)"

definition digits_val :: "nat \<Rightarrow> string \<Rightarrow> nat" where
  "digits_val b s = foldl (\<lambda>a c. a * b + digit_val c) 0 s"

definition all_digits :: "nat \<Rightarrow> string \<Rightarrow> bool" where
  "all_digits b s = (s \<noteq> [] \<and> list_all (\<lambda>c. digit_val c < b) s)"

definition signed_integer :: "string \<Rightarrow> int option" where
  "signed_integer s =
     (case s of
        [] \<Rightarrow> None
      | c # t \<Rightarrow>
          if c = CHR ''+'' then (if all_digits 10 t then Some (int (digits_val 10 t)) else None)
          else if c = CHR ''-'' then (if all_digits 10 t then Some (- int (digits_val 10 t)) else None)
          else if all_digits 10 s then Some (int (digits_val 10 s)) else None)"

definition exponent_part :: "string \<Rightarrow> int option" where
  "exponent_part s =
     (case s of
        [] \<Rightarrow> Some 0
      | c # t \<Rightarrow> if c = CHR ''e'' \<or> c = CHR ''E'' then signed_integer t else None)"

definition unsigned_decimal :: "string \<Rightarrow> rat option" where
  "unsigned_decimal s =
     (let d1 = takeWhile is_digit s;
          r1 = dropWhile is_digit s;
          d2 = (case r1 of [] \<Rightarrow> [] | c # t \<Rightarrow> if c = CHR ''.'' then takeWhile is_digit t else []);
          r2 = (case r1 of [] \<Rightarrow> [] | c # t \<Rightarrow> if c = CHR ''.'' then dropWhile is_digit t else r1)
      in if d1 = [] \<and> d2 = [] then None
         else case exponent_part r2 of
                None \<Rightarrow> None
              | Some e \<Rightarrow>
                  Some ((of_nat (digits_val 10 d1) + of_nat (digits_val 10 d2) / 10 ^ length d2)
                        * 10 powi e))"

definition str_decimal :: "bool \<Rightarrow> string \<Rightarrow> jsnum" where
  "str_decimal neg s =
     (if s = ''Infinity'' then Inf neg
      else case unsigned_decimal s of None \<Rightarrow> NaN | Some q \<Rightarrow> mk_num neg q)"

definition non_decimal :: "string \<Rightarrow> jsnum option" where
  "non_decimal s =
     (case s of
        z # p # t \<Rightarrow>
          if z \<noteq> CHR ''0'' then None
          else if p = CHR ''x'' \<or> p = CHR ''X''
            then Some (if all_digits 16 t then mk_num False (of_nat (digits_val 16 t)) else NaN)
          else if p = CHR ''o'' \<or> p = CHR ''O''
            then Some (if all_digits 8 t then mk_num False (of_nat (digits_val 8 t)) else NaN)
          else if p = CHR ''b'' \<or> p = CHR ''B''
            then Some (if all_digits 2 t then mk_num False (of_nat (digits_val 2 t)) else NaN)
          else None
      | _ \<Rightarrow> None)"

definition str_numeric :: "string \<Rightarrow> jsnum" where
  "str_numeric s =
     (case s of
        [] \<Rightarrow> Fin 0
      | c # t \<Rightarrow>
          if c = CHR ''+'' then str_decimal False t
          else if c = CHR ''-'' then str_decimal True t
          else case non_decimal s of Some r \<Rightarrow> r | None \<Rightarrow> str_decimal False s)"

text \<open>
  The white space and line terminators of ECMAScript, in UTF-8: TAB, LF, VT, FF, CR, SP,
  U+00A0, U+1680, U+2000 to U+200A, U+2028, U+2029, U+202F, U+205F, U+3000, U+FEFF.
\<close>

definition ws_seqs :: "string list" where
  "ws_seqs =
     [[CHR 0x09], [CHR 0x0A], [CHR 0x0B], [CHR 0x0C], [CHR 0x0D], [CHR 0x20],
      [CHR 0xC2, CHR 0xA0],
      [CHR 0xE1, CHR 0x9A, CHR 0x80],
      [CHR 0xE2, CHR 0x80, CHR 0x80], [CHR 0xE2, CHR 0x80, CHR 0x81],
      [CHR 0xE2, CHR 0x80, CHR 0x82], [CHR 0xE2, CHR 0x80, CHR 0x83],
      [CHR 0xE2, CHR 0x80, CHR 0x84], [CHR 0xE2, CHR 0x80, CHR 0x85],
      [CHR 0xE2, CHR 0x80, CHR 0x86], [CHR 0xE2, CHR 0x80, CHR 0x87],
      [CHR 0xE2, CHR 0x80, CHR 0x88], [CHR 0xE2, CHR 0x80, CHR 0x89],
      [CHR 0xE2, CHR 0x80, CHR 0x8A],
      [CHR 0xE2, CHR 0x80, CHR 0xA8], [CHR 0xE2, CHR 0x80, CHR 0xA9],
      [CHR 0xE2, CHR 0x80, CHR 0xAF],
      [CHR 0xE2, CHR 0x81, CHR 0x9F],
      [CHR 0xE3, CHR 0x80, CHR 0x80],
      [CHR 0xEF, CHR 0xBB, CHR 0xBF]]"

fun drop_ws :: "string list \<Rightarrow> string \<Rightarrow> string" where
  "drop_ws ws [] = []"
| "drop_ws ws (c # cs) =
     (case find (\<lambda>w. take (length w) (c # cs) = w) ws of
        None \<Rightarrow> c # cs
      | Some w \<Rightarrow> drop_ws ws (drop (length w - 1) cs))"

definition trim :: "string \<Rightarrow> string" where
  "trim s = rev (drop_ws (map rev ws_seqs) (rev (drop_ws ws_seqs s)))"

definition jsNumber :: "string \<Rightarrow> jsnum" where
  "jsNumber s = str_numeric (trim s)"

text \<open>
  \<open>x.toFixed(2)\<close>: for a finite \<open>x\<close> below \<open>10 ^ 21\<close> in magnitude, the integer \<open>n\<close>
  nearest to \<open>100 * x\<close> (the larger one on a tie), written with two digits after the point.
  From \<open>10 ^ 21\<close> on, toFixed returns the shortest round-trip decimal notation of the
  number (Number::toString), which is a routine of the runtime and is taken as the
  parameter \<open>to_str\<close>.
\<close>

fun dec_string :: "nat \<Rightarrow> string" where
  "dec_string n =
     (if n < 10 then [''0123456789'' ! n]
      else dec_string (n div 10) @ [''0123456789'' ! (n mod 10)])"

declare dec_string.simps [simp del]

definition fixed2 :: "rat \<Rightarrow> string" where
  "fixed2 a =
     (let n = nat \<lfloor>a * 100 + 1 / 2\<rfloor>;
          m = dec_string n;
          m' = replicate (3 - length m) CHR ''0'' @ m
      in take (length m' - 2) m' @ ''.'' @ drop (length m' - 2) m')"

definition toFixed2 :: "(rat \<Rightarrow> string) \<Rightarrow> jsnum \<Rightarrow> string" where
  "toFixed2 to_str x =
     (case x of
        NaN \<Rightarrow> ''NaN''
      | Inf b \<Rightarrow> (if b then ''-Infinity'' else ''Infinity'')
      | NegZero \<Rightarrow> fixed2 0
      | Fin q \<Rightarrow>
          (if q < 0 then ''-'' else '''') @
          (if 10 ^ 21 \<le> \<bar>q\<bar> then to_str \<bar>q\<bar> else fixed2 \<bar>q\<bar>))"

section \<open>The data model of App.tsx\<close>

text \<open>
  The interfaces \<open>ExchangeRate\<close>, \<open>Alert\<close>, \<open>HistoricalData\<close> and \<open>APIResponse\<close>.
  Field names shared by two interfaces carry a prefix in the second one
  (\<open>alert_currency\<close>, \<open>alert_type\<close>, \<open>hist_rate\<close>, \<open>form_currency\<close>, ...). The
  \<open>symbol\<close> of a record is \<open>CURRENCY_SYMBOLS[currency]\<close>, \<open>None\<close> standing for
  \<open>undefined\<close>.
\<close>

record ExchangeRate =
  currency :: string
  symbol :: "string option"
  rate :: jsnum
  change :: jsnum

datatype alert_kind = above | below

record Alert =
  alert_currency :: string
  targetRate :: jsnum
  alert_type :: alert_kind

record HistoricalData =
  date :: string
  hist_rate :: jsnum

record APIResponse =
  result :: string
  base_code :: string
  conversion_rates :: "string \<rightharpoonup> jsnum"
  time_last_update_unix :: jsnum

record AlertForm =
  form_currency :: string
  form_targetRate :: string
  form_type :: alert_kind

datatype time_range = R24h | R7d | R30d | R1y

text \<open>
  The component state: one field per \<open>useState\<close> hook of \<open>App\<close>. \<open>lastUpdate\<close> holds
  the time value of the \<open>Date\<close>, \<open>None\<close> for \<open>null\<close>.
\<close>

record app_state =
  darkMode :: bool
  selectedCurrency :: string
  timeRange :: time_range
  rates :: "ExchangeRate list"
  historicalData :: "HistoricalData list"
  alerts :: "Alert list"
  showConverter :: bool
  convertAmount :: string
  convertFrom :: string
  convertTo :: string
  loading :: bool
  error :: "string option"
  lastUpdate :: "jsnum option"
  alertForm :: AlertForm

text \<open>
  What the code takes from the runtime and its libraries: the decimal notation of a large
  number (see \<open>toFixed2\<close>), the successive results of \<open>Math.random()\<close> within one run of
  \<open>generateHistoricalData\<close>, and the label \<open>format(subDays(new Date(), amount), pattern,
  {locale: ptBR})\<close> of date-fns, which depends on the clock.
\<close>

record js_env =
  num_to_string :: "rat \<Rightarrow> string"
  math_random :: "nat \<Rightarrow> jsnum"
  format_sub_days :: "jsnum \<Rightarrow> string \<Rightarrow> string"

definition CURRENCY_SYMBOLS :: "string \<rightharpoonup> string" where
  "CURRENCY_SYMBOLS =
     [''USD'' \<mapsto> ''$'',
      ''EUR'' \<mapsto> [CHR 0xE2, CHR 0x82, CHR 0xAC],
      ''GBP'' \<mapsto> [CHR 0xC2, CHR 0xA3],
      ''BRL'' \<mapsto> ''R$'']"

definition SUPPORTED_CURRENCIES :: "string list" where
  "SUPPORTED_CURRENCIES = [''USD'', ''EUR'', ''GBP'', ''BRL'']"

text \<open>The initial values of the \<open>useState\<close> hooks.\<close>

definition initial_state :: app_state where
  "initial_state =
     \<lparr>darkMode = False, selectedCurrency = ''USD'', timeRange = R7d, rates = [],
      historicalData = [], alerts = [], showConverter = False, convertAmount = [],
      convertFrom = ''USD'', convertTo = ''BRL'', loading = True, error = None,
      lastUpdate = None,
      alertForm = \<lparr>form_currency = ''USD'', form_targetRate = [], form_type = above\<rparr>\<rparr>"

section \<open>fetchExchangeRates\<close>

text \<open>
  What \<open>await axios.get(...)\<close> gives: it throws (an \<open>Error\<close> with its message, or some
  other value), or it returns a response whose \<open>data\<close> is an \<open>APIResponse\<close>. The
  interface makes \<open>conversion_rates\<close> an object; a key it does not hold reads as
  \<open>undefined\<close>. (Data with no \<open>conversion_rates\<close> object at all is outside the
  interface: the first lookup would throw a TypeError, an \<open>Error\<close>, before any setter runs.)
\<close>

datatype thrown = ErrorObj string | NonError

datatype fetch_outcome = Rejected thrown | Resolved APIResponse

definition newRates :: "APIResponse \<Rightarrow> ExchangeRate list" where
  "newRates r =
     map (\<lambda>c. \<lparr>currency = c,
                symbol = CURRENCY_SYMBOLS c,
                rate = (if c = ''BRL'' then Fin 1
                        else jsdiv (Fin 1) (to_number (conversion_rates r c))),
                change = Fin 0\<rparr>)
         SUPPORTED_CURRENCIES"

text \<open>The \<open>try\<close> block after the \<open>await\<close>: the new state, or the value thrown.\<close>

definition try_block :: "fetch_outcome \<Rightarrow> app_state \<Rightarrow> thrown + app_state" where
  "try_block outcome s =
     (case outcome of
        Rejected t \<Rightarrow> Inl t
      | Resolved r \<Rightarrow>
          if result r = ''success''
          then Inr (s\<lparr>rates := newRates r,
                      lastUpdate := Some (TimeClip (jsmul (time_last_update_unix r) (Fin 1000)))\<rparr>)
          else Inl (ErrorObj ''Failed to fetch exchange rates''))"

definition errorMessage :: "thrown \<Rightarrow> string" where
  "errorMessage t = (case t of ErrorObj m \<Rightarrow> m | NonError \<Rightarrow> ''Failed to fetch exchange rates'')"

text \<open>The prefix \<open>Erro ao carregar taxas de c\<close>, a with circumflex, \<open>mbio: \<close> in UTF-8.\<close>

definition error_prefix :: string where
  "error_prefix = ''Erro ao carregar taxas de c'' @ [CHR 0xC3, CHR 0xA2] @ ''mbio: ''"

definition catch_block :: "thrown \<Rightarrow> app_state \<Rightarrow> app_state" where
  "catch_block t s = s\<lparr>error := Some (error_prefix @ errorMessage t)\<rparr>"

text \<open>
  One run of \<open>fetchExchangeRates\<close> from the state \<open>s\<close>, given the outcome of the request:
  \<open>setLoading(true); setError(null)\<close>, the \<open>try\<close> block or the \<open>catch\<close> block, and
  \<open>setLoading(false)\<close> in \<open>finally\<close>.
\<close>

definition fetchExchangeRates :: "fetch_outcome \<Rightarrow> app_state \<Rightarrow> app_state" where
  "fetchExchangeRates outcome s =
     (let s1 = s\<lparr>loading := True, error := None\<rparr>;
          s2 = (case try_block outcome s1 of Inr s' \<Rightarrow> s' | Inl t \<Rightarrow> catch_block t s1)
      in s2\<lparr>loading := False\<rparr>)"


text \<open>
  Responses to run the code on: one with the rates 0.2, 0.125 and 0.25, one with the
  rate 0.1875 for USD, and one with status success in which USD is zero and GBP is
  missing.
\<close>

definition sample_response :: APIResponse where
  "sample_response =
     \<lparr>result = ''success'', base_code = ''BRL'',
      conversion_rates = [''USD'' \<mapsto> num_lit (1 / 5), ''EUR'' \<mapsto> Fin (1 / 8),
                          ''GBP'' \<mapsto> Fin (1 / 4), ''BRL'' \<mapsto> Fin 1],
      time_last_update_unix = Fin 1700000000\<rparr>"



section \<open>generateHistoricalData\<close>

definition days_of :: "time_range \<Rightarrow> nat" where
  "days_of tr = (case tr of R24h \<Rightarrow> 1 | R7d \<Rightarrow> 7 | R30d \<Rightarrow> 30 | R1y \<Rightarrow> 365)"

text \<open>\<open>rates.find(r => r.currency === code)?.rate || dflt\<close>\<close>

definition rate_or :: "ExchangeRate list \<Rightarrow> string \<Rightarrow> jsnum \<Rightarrow> jsnum" where
  "rate_or rs code dflt =
     (case find (\<lambda>r. currency r = code) rs of
        None \<Rightarrow> dflt
      | Some r \<Rightarrow> if truthy (rate r) then rate r else dflt)"

text \<open>
  \<open>baseRate\<close> is \<open>rates.find(r => r.currency === selectedCurrency)?.rate || 5\<close>, and
  \<open>randomVariation\<close> is \<open>(Math.random() - 0.5) * 0.2\<close> for the \<open>k\<close>-th draw.
\<close>

definition baseRate :: "app_state \<Rightarrow> jsnum" where
  "baseRate s = rate_or (rates s) (selectedCurrency s) (Fin 5)"

definition randomVariation :: "js_env \<Rightarrow> nat \<Rightarrow> jsnum" where
  "randomVariation env k = jsmul (jssub (math_random env k) (num_lit (1 / 2))) (num_lit (1 / 5))"

text \<open>The point pushed in the iteration with loop variable \<open>i\<close>, the \<open>k\<close>-th of the run.\<close>

definition history_point :: "js_env \<Rightarrow> time_range \<Rightarrow> jsnum \<Rightarrow> nat \<Rightarrow> nat \<Rightarrow> HistoricalData" where
  "history_point env tr base i k =
     \<lparr>date = (if tr = R24h
               then format_sub_days env (jsdiv (Fin (of_nat i)) (Fin 24)) ''HH:mm''
               else format_sub_days env (Fin (of_nat i)) ''dd/MM''),
      hist_rate = jsNumber (toFixed2 (num_to_string env) (jsadd base (randomVariation env k)))\<rparr>"

text \<open>The loop \<open>for (let i = days; i >= 0; i--)\<close>, from \<open>i\<close> on, after \<open>k\<close> iterations.\<close>

fun history_loop ::
  "js_env \<Rightarrow> time_range \<Rightarrow> jsnum \<Rightarrow> nat \<Rightarrow> nat \<Rightarrow> HistoricalData list \<Rightarrow> HistoricalData list" where
  "history_loop env tr base 0 k data = data @ [history_point env tr base 0 k]"
| "history_loop env tr base (Suc i) k data =
     history_loop env tr base i (Suc k) (data @ [history_point env tr base (Suc i) k])"

definition generateHistoricalData :: "js_env \<Rightarrow> app_state \<Rightarrow> app_state" where
  "generateHistoricalData env s =
     s\<lparr>historicalData := history_loop env (timeRange s) (baseRate s) (days_of (timeRange s)) 0 []\<rparr>"

text \<open>The effect that runs it: only when there are rates.\<close>

definition history_effect :: "js_env \<Rightarrow> app_state \<Rightarrow> app_state" where
  "history_effect env s = (if 0 < length (rates s) then generateHistoricalData env s else s)"

section \<open>Alerts\<close>

definition handleCreateAlert :: "app_state \<Rightarrow> app_state" where
  "handleCreateAlert s =
     (if form_targetRate (alertForm s) \<noteq> []
      then s\<lparr>alerts := alerts s @
                  [\<lparr>alert_currency = form_currency (alertForm s),
                    targetRate = jsNumber (form_targetRate (alertForm s)),
                    alert_type = form_type (alertForm s)\<rparr>],
              alertForm := (alertForm s)\<lparr>form_targetRate := []\<rparr>\<rparr>
      else s)"



section \<open>calculateConversion\<close>

definition calculateConversion :: "js_env \<Rightarrow> app_state \<Rightarrow> string" where
  "calculateConversion env s =
     (let fromRate = rate_or (rates s) (convertFrom s) (Fin 1);
          toRate = rate_or (rates s) (convertTo s) (Fin 1);
          amount = jsNumber (convertAmount s)
      in if truthy amount \<and> \<not> isNaN amount
         then toFixed2 (num_to_string env) (jsdiv (jsmul amount fromRate) toRate)
         else ''0.00'')"

text \<open>
  Inputs to run the converter on: the snapshot with the rates 5 for USD and 1 for BRL, the
  state of the converter for an amount typed into the input and two codes, and an
  environment in which every draw of \<open>Math.random()\<close> is 1/1024 and every date label
  is empty.
\<close>

definition example_snapshot :: "ExchangeRate list" where
  "example_snapshot =
     [\<lparr>currency = ''USD'', symbol = Some ''$'', rate = Fin 5, change = Fin 0\<rparr>,
      \<lparr>currency = ''BRL'', symbol = Some ''R$'', rate = Fin 1, change = Fin 0\<rparr>]"

definition converter_state :: "ExchangeRate list \<Rightarrow> string \<Rightarrow> string \<Rightarrow> string \<Rightarrow> app_state" where
  "converter_state rs amount from_code to_code =
     initial_state\<lparr>rates := rs, convertAmount := amount,
                   convertFrom := from_code, convertTo := to_code\<rparr>"



definition sample_env :: js_env where
  "sample_env =
     \<lparr>num_to_string = (\<lambda>_. []), math_random = (\<lambda>_. Fin (1 / 1024)),
      format_sub_days = (\<lambda>_ _. [])\<rparr>"

section \<open>Rounding to binary64\<close>

text \<open>The exponent found by \<open>ilog2\<close> is the one and only binary exponent.\<close>

lemma ilog2_bounds:
  assumes "0 < a"
  shows "2 powi (ilog2 a) \<le> a \<and> a < 2 powi (ilog2 a + 1)"
proof (cases "1 \<le> a")
  case True
  define n where "n = \<lfloor>a\<rfloor>"
  have n1: "1 \<le> n" using True by (simp add: n_def le_floor_iff)
  then have npos: "0 < n" by simp
  have bl: "1 \<le> bitlen n" using npos bitlen_eq_zero_iff[of n] bitlen_nonneg[of n] by linarith
  from bitlen_bounds[OF npos]
  have lo: "2 ^ nat (bitlen n - 1) \<le> n" and hi: "n < 2 ^ nat (bitlen n)" by auto
  have e: "ilog2 a = bitlen n - 1" using True by (simp add: ilog2_def n_def)
  have "(2::rat) powi (bitlen n - 1) = 2 ^ nat (bitlen n - 1)"
    using bl by (simp add: power_int_nonneg_exp)
  also have "\<dots> = of_int (2 ^ nat (bitlen n - 1))" by simp
  also have "\<dots> \<le> of_int n" using lo by (simp only: of_int_le_iff)
  also have "\<dots> \<le> a" by (simp add: n_def)
  finally have A: "2 powi (ilog2 a) \<le> a" by (simp add: e)
  have "n + 1 \<le> 2 ^ nat (bitlen n)" using hi by simp
  then have "(of_int (n + 1) :: rat) \<le> of_int (2 ^ nat (bitlen n))" by (simp only: of_int_le_iff)
  moreover have "a < of_int (n + 1)" using floor_correct[of a] by (simp add: n_def)
  ultimately have "a < of_int (2 ^ nat (bitlen n))" by linarith
  also have "\<dots> = 2 powi (bitlen n)" using bl by (simp add: power_int_nonneg_exp)
  finally have B: "a < 2 powi (ilog2 a + 1)" by (simp add: e)
  from A B show ?thesis by blast
next
  case False
  define k where "k = \<lceil>1 / a\<rceil> - 1"
  have y1: "1 < 1 / a" using False assms by simp
  have k1: "1 \<le> k" using y1 by (simp add: k_def less_ceiling_iff)
  then have kpos: "0 < k" by simp
  have bl: "1 \<le> bitlen k" using kpos bitlen_eq_zero_iff[of k] bitlen_nonneg[of k] by linarith
  from bitlen_bounds[OF kpos]
  have lo: "2 ^ nat (bitlen k - 1) \<le> k" and hi: "k < 2 ^ nat (bitlen k)" by auto
  have e: "ilog2 a = - bitlen k" using False by (simp add: ilog2_def k_def)
  have yhi: "1 / a \<le> of_int (k + 1)" by (simp add: k_def)
  have ylo: "of_int k < 1 / a" using ceiling_correct[of "1 / a"] by (simp add: k_def)
  have "k + 1 \<le> 2 ^ nat (bitlen k)" using hi by simp
  then have "(of_int (k + 1) :: rat) \<le> of_int (2 ^ nat (bitlen k))" by (simp only: of_int_le_iff)
  with yhi have "1 / a \<le> of_int (2 ^ nat (bitlen k))" by linarith
  also have "\<dots> = 2 powi (bitlen k)" using bl by (simp add: power_int_nonneg_exp)
  finally have "1 / a \<le> 2 powi (bitlen k)" .
  then have "1 \<le> a * 2 powi (bitlen k)" using assms by (simp add: field_simps)
  then have A: "2 powi (ilog2 a) \<le> a"
    by (simp add: e power_int_minus field_simps)
  have "(2::rat) powi (bitlen k - 1) = 2 ^ nat (bitlen k - 1)"
    using bl by (simp add: power_int_nonneg_exp)
  also have "\<dots> = of_int (2 ^ nat (bitlen k - 1))" by simp
  also have "\<dots> \<le> of_int k" using lo by (simp only: of_int_le_iff)
  also have "\<dots> < 1 / a" by (rule ylo)
  finally have "2 powi (bitlen k - 1) < 1 / a" .
  then have "a * 2 powi (bitlen k - 1) < 1" using assms by (simp add: field_simps)
  then have "a < 1 / 2 powi (bitlen k - 1)" by (simp add: pos_less_divide_eq)
  also have "1 / (2::rat) powi (bitlen k - 1) = 2 powi (- (bitlen k - 1))"
    by (simp only: power_int_minus_divide)
  finally have B: "a < 2 powi (ilog2 a + 1)" by (simp add: e)
  from A B show ?thesis by blast
qed

lemma powi2_less_cancel: "(2::rat) powi m < 2 powi n \<Longrightarrow> m < n"
proof (rule ccontr)
  assume a: "2 powi m < (2::rat) powi n" and "\<not> m < n"
  then have "n \<le> m" by simp
  then have "(2::rat) powi n \<le> 2 powi m" by (rule power_int_increasing) simp
  with a show False by simp
qed

lemma ilog2_unique:
  assumes "2 powi e \<le> a" and "a < 2 powi (e + 1)"
  shows "ilog2 a = e"
proof -
  have "(0::rat) < 2 powi e" by simp
  with assms(1) have pos: "0 < a" by linarith
  from ilog2_bounds[OF pos] have b: "2 powi (ilog2 a) \<le> a" "a < 2 powi (ilog2 a + 1)" by auto
  have "(2::rat) powi e < 2 powi (ilog2 a + 1)" using assms(1) b(2) by linarith
  then have 1: "e < ilog2 a + 1" by (rule powi2_less_cancel)
  have "(2::rat) powi (ilog2 a) < 2 powi (e + 1)" using assms(2) b(1) by linarith
  then have 2: "ilog2 a < e + 1" by (rule powi2_less_cancel)
  from 1 2 show ?thesis by linarith
qed

lemma round_ties_even_unique:
  assumes "of_int m - 1 / 2 < x" and "x < of_int m + 1 / 2"
  shows "round_ties_even x = m"
proof -
  have "\<lfloor>x\<rfloor> = m \<or> \<lfloor>x\<rfloor> = m - 1" using assms by linarith
  then show ?thesis
  proof
    assume f: "\<lfloor>x\<rfloor> = m"
    then have "x - of_int \<lfloor>x\<rfloor> < 1 / 2" using assms by simp
    then show ?thesis by (simp add: round_ties_even_def Let_def f)
  next
    assume f: "\<lfloor>x\<rfloor> = m - 1"
    then have "1 / 2 < x - of_int \<lfloor>x\<rfloor>" using assms by simp
    then show ?thesis by (simp add: round_ties_even_def Let_def f)
  qed
qed



text \<open>
  A rounding is certified by its exponent \<open>e\<close> and its significand \<open>m\<close>: concrete
  values are then checked by comparing numerals.
\<close>

lemma round_mag_eqI:
  assumes "2 powi e \<le> a" and "a < 2 powi (e + 1)"
    and "of_int m - 1 / 2 < a / 2 powi (max e (- 1022) - 52)"
    and "a / 2 powi (max e (- 1022) - 52) < of_int m + 1 / 2"
    and "v = of_int m * 2 powi (max e (- 1022) - 52)"
    and "v < 2 powi 1024"
  shows "round_mag a = Some v"
proof -
  have "(0::rat) < 2 powi e" by simp
  with assms(1) have pos: "a \<noteq> 0" by linarith
  have e: "ilog2 a = e" using assms(1,2) by (rule ilog2_unique)
  have r: "round_ties_even (a / 2 powi (max e (- 1022) - 52)) = m"
    using assms(3,4) by (rule round_ties_even_unique)
  show ?thesis using pos assms(5,6) by (simp add: round_mag_def e r Let_def)
qed








lemma round_mag_4: "round_mag 4 = Some 4"
  by (rule round_mag_eqI[where e = 2 and m = 4503599627370496]) simp_all

lemma round_mag_8: "round_mag 8 = Some 8"
  by (rule round_mag_eqI[where e = 3 and m = 4503599627370496]) simp_all

lemma round_mag_fifth: "round_mag (1 / 5) = Some (3602879701896397 / 18014398509481984)"
  by (rule round_mag_eqI[where e = "- 3" and m = 7205759403792794]) simp_all

lemma round_mag_inv_fifth: "round_mag (18014398509481984 / 3602879701896397) = Some 5"
  by (rule round_mag_eqI[where e = 2 and m = 5629499534213120]) simp_all

lemma sample_rates:
  "jsdiv (Fin 1) (num_lit (1 / 5)) = Fin 5"
  "jsdiv (Fin 1) (Fin (1 / 8)) = Fin 8"
  "jsdiv (Fin 1) (Fin (1 / 4)) = Fin 4"
  by (simp_all add: jsdiv_def num_lit_def mk_num_def round_mag_fifth round_mag_inv_fifth
      round_mag_8 round_mag_4)


section \<open>Evaluating Number and toFixed\<close>

lemma floor_numeral_div_rat [simp]:
  "\<lfloor>numeral a / numeral b :: rat\<rfloor> = numeral a div numeral b"
  using floor_divide_of_int_eq[of "numeral a" "numeral b", where ?'a = rat] by simp



lemmas number_parse =
  jsNumber_def trim_def ws_seqs_def str_numeric_def non_decimal_def str_decimal_def
  unsigned_decimal_def exponent_part_def signed_integer_def is_digit_def digits_val_def
  digit_val_def all_digits_def




lemma jsNumber_empty: "jsNumber [] = Fin 0"
  by (simp add: number_parse)

lemma jsNumber_abc: "jsNumber ''abc'' = NaN"
  by (simp add: number_parse)

lemma jsNumber_0: "jsNumber ''0'' = Fin 0"
  by (simp add: number_parse mk_num_def round_mag_def)













section \<open>Alerts are kept in creation order and removed by position\<close>






text \<open>
  Claim C10. With an empty target in the alert form, creating an alert changes nothing:
  no rule is appended, the form is left as it is, and there is no error path.
\<close>

theorem create_alert_empty_target_noop:
  "form_targetRate (alertForm s) = [] \<Longrightarrow> handleCreateAlert s = s"
  by (simp add: handleCreateAlert_def)

theorem create_alert_empty_target_noop_witness:
  "form_targetRate (alertForm initial_state) = [] \<and>
   handleCreateAlert initial_state = initial_state"
  using create_alert_empty_target_noop [of initial_state]
  by (simp add: initial_state_def)

section \<open>The outcome of a fetch\<close>

lemma newRates_unfold:
  "newRates r =
     [\<lparr>currency = ''USD'', symbol = Some ''$'',
       rate = jsdiv (Fin 1) (to_number (conversion_rates r ''USD'')), change = Fin 0\<rparr>,
      \<lparr>currency = ''EUR'', symbol = Some [CHR 0xE2, CHR 0x82, CHR 0xAC],
       rate = jsdiv (Fin 1) (to_number (conversion_rates r ''EUR'')), change = Fin 0\<rparr>,
      \<lparr>currency = ''GBP'', symbol = Some [CHR 0xC2, CHR 0xA3],
       rate = jsdiv (Fin 1) (to_number (conversion_rates r ''GBP'')), change = Fin 0\<rparr>,
      \<lparr>currency = ''BRL'', symbol = Some ''R$'', rate = Fin 1, change = Fin 0\<rparr>]"
  by (simp add: newRates_def SUPPORTED_CURRENCIES_def CURRENCY_SYMBOLS_def)

lemma fetch_success_state:
  "result r = ''success'' \<Longrightarrow>
   fetchExchangeRates (Resolved r) s =
     s\<lparr>rates := newRates r,
       lastUpdate := Some (TimeClip (jsmul (time_last_update_unix r) (Fin 1000))),
       loading := False, error := None\<rparr>"
  by (simp add: fetchExchangeRates_def try_block_def)




text \<open>
  Claim C2. After a fetch whose response has result success, the rates are four records,
  one per supported currency in the order USD, EUR, GBP, BRL; the rate of USD, EUR and GBP
  is 1 / conversion_rates[code] (a missing code reading as undefined), and the rate of BRL
  is the constant 1, whatever conversion_rates holds for BRL.
\<close>

theorem fetch_success_snapshot:
  assumes "result r = ''success''"
  shows "rates (fetchExchangeRates (Resolved r) s) =
     [\<lparr>currency = ''USD'', symbol = Some ''$'',
       rate = jsdiv (Fin 1) (to_number (conversion_rates r ''USD'')), change = Fin 0\<rparr>,
      \<lparr>currency = ''EUR'', symbol = Some [CHR 0xE2, CHR 0x82, CHR 0xAC],
       rate = jsdiv (Fin 1) (to_number (conversion_rates r ''EUR'')), change = Fin 0\<rparr>,
      \<lparr>currency = ''GBP'', symbol = Some [CHR 0xC2, CHR 0xA3],
       rate = jsdiv (Fin 1) (to_number (conversion_rates r ''GBP'')), change = Fin 0\<rparr>,
      \<lparr>currency = ''BRL'', symbol = Some ''R$'', rate = Fin 1, change = Fin 0\<rparr>] \<and>
     map currency (rates (fetchExchangeRates (Resolved r) s)) = SUPPORTED_CURRENCIES"
  using assms
  by (simp add: fetch_success_state newRates_unfold SUPPORTED_CURRENCIES_def)

theorem fetch_success_snapshot_witness:
  "result sample_response = ''success'' \<and>
   rates (fetchExchangeRates (Resolved sample_response) initial_state) =
     [\<lparr>currency = ''USD'', symbol = Some ''$'', rate = Fin 5, change = Fin 0\<rparr>,
      \<lparr>currency = ''EUR'', symbol = Some [CHR 0xE2, CHR 0x82, CHR 0xAC], rate = Fin 8, change = Fin 0\<rparr>,
      \<lparr>currency = ''GBP'', symbol = Some [CHR 0xC2, CHR 0xA3], rate = Fin 4, change = Fin 0\<rparr>,
      \<lparr>currency = ''BRL'', symbol = Some ''R$'', rate = Fin 1, change = Fin 0\<rparr>]"
  using fetch_success_snapshot [of sample_response initial_state]
  by (simp add: sample_response_def to_number_def sample_rates)




section \<open>The converter\<close>







text \<open>
  Claim C7. Whatever the snapshot and the two codes, an amount that is absent (the empty
  input), not numeric (Number gives NaN) or zero gives the string "0.00".
\<close>

theorem conversion_invalid_amount:
  assumes "convertAmount s = [] \<or> jsNumber (convertAmount s) = NaN \<or>
           is_zero (jsNumber (convertAmount s))"
  shows "calculateConversion env s = ''0.00''"
  using assms by (auto simp: calculateConversion_def truthy_def isNaN_def jsNumber_empty)

theorem conversion_invalid_amount_witness:
  "convertAmount (converter_state example_snapshot [] ''USD'' ''BRL'') = [] \<and>
   calculateConversion sample_env (converter_state example_snapshot [] ''USD'' ''BRL'') = ''0.00'' \<and>
   jsNumber (convertAmount (converter_state example_snapshot ''abc'' ''EUR'' ''USD'')) = NaN \<and>
   calculateConversion sample_env (converter_state example_snapshot ''abc'' ''EUR'' ''USD'') = ''0.00'' \<and>
   is_zero (jsNumber (convertAmount (converter_state [] ''0'' ''BRL'' ''GBP''))) \<and>
   calculateConversion sample_env (converter_state [] ''0'' ''BRL'' ''GBP'') = ''0.00''"
proof -
  have a: "convertAmount (converter_state example_snapshot [] ''USD'' ''BRL'') = []"
    by (simp add: converter_state_def)
  have b: "jsNumber (convertAmount (converter_state example_snapshot ''abc'' ''EUR'' ''USD'')) = NaN"
    by (simp add: converter_state_def jsNumber_abc)
  have c: "is_zero (jsNumber (convertAmount (converter_state [] ''0'' ''BRL'' ''GBP'')))"
    by (simp add: converter_state_def jsNumber_0)
  show ?thesis
    using a b c
      conversion_invalid_amount [of "converter_state example_snapshot [] ''USD'' ''BRL''" sample_env]
      conversion_invalid_amount [of "converter_state example_snapshot ''abc'' ''EUR'' ''USD''" sample_env]
      conversion_invalid_amount [of "converter_state [] ''0'' ''BRL'' ''GBP''" sample_env]
    by blast
qed







section \<open>The synthetic history\<close>





































end
